theory Spec2Isabelle
  imports Complex_Main "HOL-Library.Char_ord" "HOL-Library.List_Lexorder"
begin

text \<open>
  The class \<open>BindingCurve\<close> of \<open>pybindingcurve.py\<close>: an accumulator of curves
  for one plot (\<open>add_curve\<close>, \<open>show_plot\<close>) and a front end to a least-squares
  fit (\<open>fit\<close>, \<open>_residual\<close>). The equation systems, the minimizer and the
  chart are outside the file; they appear here as parameters or as records of
  the calls made on them.
\<close>

section \<open>Values of the Python program\<close>

subsection \<open>Floats\<close>

text \<open>
  A Python float is a finite number, one of the two infinities, or NaN. Finite
  floats are modelled as reals: comparisons, minimum and maximum are exact on
  floats, so nothing is lost for the axis bounds; the rounding of a product or
  of a difference is not modelled.
\<close>

datatype pyfloat = NaN | NegInf | Fin real | PosInf

fun fle :: "pyfloat \<Rightarrow> pyfloat \<Rightarrow> bool" where
  "fle NaN _ = False"
| "fle _ NaN = False"
| "fle NegInf _ = True"
| "fle _ PosInf = True"
| "fle (Fin a) (Fin b) = (a \<le> b)"
| "fle PosInf _ = False"
| "fle (Fin a) NegInf = False"

fun fmul :: "pyfloat \<Rightarrow> pyfloat \<Rightarrow> pyfloat" where
  "fmul NaN _ = NaN"
| "fmul _ NaN = NaN"
| "fmul (Fin a) (Fin b) = Fin (a * b)"
| "fmul (Fin a) PosInf = (if a = 0 then NaN else if 0 < a then PosInf else NegInf)"
| "fmul (Fin a) NegInf = (if a = 0 then NaN else if 0 < a then NegInf else PosInf)"
| "fmul PosInf (Fin b) = (if b = 0 then NaN else if 0 < b then PosInf else NegInf)"
| "fmul NegInf (Fin b) = (if b = 0 then NaN else if 0 < b then NegInf else PosInf)"
| "fmul PosInf PosInf = PosInf"
| "fmul NegInf NegInf = PosInf"
| "fmul PosInf NegInf = NegInf"
| "fmul NegInf PosInf = NegInf"

fun fsub :: "pyfloat \<Rightarrow> pyfloat \<Rightarrow> pyfloat" where
  "fsub NaN _ = NaN"
| "fsub _ NaN = NaN"
| "fsub (Fin a) (Fin b) = Fin (a - b)"
| "fsub PosInf PosInf = NaN"
| "fsub NegInf NegInf = NaN"
| "fsub PosInf _ = PosInf"
| "fsub NegInf _ = NegInf"
| "fsub (Fin a) PosInf = NegInf"
| "fsub (Fin a) NegInf = PosInf"

text \<open>
  \<open>np.nanmax([a, b])\<close> and \<open>np.nanmin([a, b])\<close> on two floats: a NaN is skipped,
  and the result is NaN only when both are.
\<close>

definition nanmax2 :: "pyfloat \<Rightarrow> pyfloat \<Rightarrow> pyfloat" where
  "nanmax2 a b = (if a = NaN then b else if b = NaN then a else if fle a b then b else a)"

definition nanmin2 :: "pyfloat \<Rightarrow> pyfloat \<Rightarrow> pyfloat" where
  "nanmin2 a b = (if a = NaN then b else if b = NaN then a else if fle a b then a else b)"

subsection \<open>Exceptions, reported failures, outcomes\<close>

text \<open>
  A Python exception that leaves the method is \<open>Raised\<close>. The diagnostics the
  source prints before returning \<open>None\<close> are \<open>Reported\<close>, under the names the
  specification gives them.
\<close>

datatype exn = TypeError | IndexError | ValueError | AttributeError | KeyError
  | OtherError string

datatype failure = NoSystemConfigured | InvalidSweepSpecification | MissingReadout
  | NothingToFit | MissingParameters "string list"

datatype 'a outcome = Returned 'a | Reported failure | Raised exn

text \<open>
  \<open>np.nanmax(a)\<close> and \<open>np.nanmin(a)\<close> on an array: \<open>ValueError\<close> on an empty
  one, NaN when every entry is NaN.
\<close>

fun nanmax :: "pyfloat list \<Rightarrow> exn + pyfloat" where
  "nanmax [] = Inl ValueError"
| "nanmax (y # ys) = Inr (foldl nanmax2 y ys)"

fun nanmin :: "pyfloat list \<Rightarrow> exn + pyfloat" where
  "nanmin [] = Inl ValueError"
| "nanmin (y # ys) = Inr (foldl nanmin2 y ys)"

subsection \<open>Parameter dictionaries\<close>

text \<open>
  An \<open>lmfit\<close> parameter object, as far as \<open>fit\<close> reads and writes it.
\<close>

record parameter =
  par_value :: pyfloat
  par_min :: pyfloat
  par_max :: pyfloat
  par_stderr :: "pyfloat option"

text \<open>
  The value bound to a parameter name: a scalar, a numpy array, a Python list,
  or (inside \<open>fit\<close> only) an \<open>lmfit\<close> parameter object. A dictionary is an
  association list in insertion order.
\<close>

datatype pval = Scalar pyfloat | NdArray "pyfloat list" | PyList "pyfloat list"
  | Param parameter

type_synonym dict = "(string \<times> pval) list"

fun is_sequence :: "pval \<Rightarrow> bool" where
  "is_sequence (NdArray _) = True"
| "is_sequence (PyList _) = True"
| "is_sequence _ = False"

fun sequence_of :: "pval \<Rightarrow> pyfloat list" where
  "sequence_of (NdArray xs) = xs"
| "sequence_of (PyList xs) = xs"
| "sequence_of _ = []"

text \<open>\<open>d[k] = v\<close>: an existing key keeps its place, a new key goes last.\<close>

fun setitem :: "('k \<times> 'v) list \<Rightarrow> 'k \<Rightarrow> 'v \<Rightarrow> ('k \<times> 'v) list" where
  "setitem [] k v = [(k, v)]"
| "setitem ((k', v') # d) k v = (if k' = k then (k, v) # d else (k', v') # setitem d k v)"

subsection \<open>The binding system (external)\<close>

text \<open>
  The equation systems are not part of this file: a system is its \<open>analytical\<close>
  flag, its \<open>arguments\<close> and its \<open>query\<close> method, which the source calls with
  one argument or with two. What the method computes, and whether it raises,
  is the system's business: it is a parameter of everything below. A scalar
  result is an array of length one.
\<close>

datatype qargs = Args1 dict | Args2 dict "string option"

record binding_system =
  analytical :: bool
  arguments :: "string list"
  system_query :: "qargs \<Rightarrow> exn + pyfloat list"

section \<open>The plot accumulator\<close>

record curve =
  xcoords :: "pyfloat list"
  ycoords :: "pyfloat list"
  name :: string

text \<open>
  The chart is an external sink: the axes object is the list of calls made on
  it, oldest first. Font and padding arguments are left out.
\<close>

datatype axes_call = Grid | SetYlim pyfloat pyfloat | SetXlim pyfloat pyfloat
  | Plot "pyfloat list" "pyfloat list" string string
  | SetXscale string | SetYscale string
  | SetXlabel string | SetYlabel string | SetTitle string | Legend

datatype figure = Figure real real

datatype plt_call = SaveFig string | Show

text \<open>
  The attributes an instance of \<open>BindingCurve\<close> can hold. Every one of them is
  declared on the class; all but \<open>curves\<close> are rebound on the instance when
  written (\<open>self.x = \<dots>\<close>), so each instance has its own, starting from the class's
  value. \<open>curves\<close> is never rebound: \<open>self.curves.append\<close> mutates the one list
  object of the class, which is therefore kept apart from the instance.
\<close>

record accumulator =
  system :: "binding_system option"
  fig :: "figure option"
  axes :: "axes_call list option"
  min_x_axis :: pyfloat
  max_x_axis :: pyfloat
  min_y_axis :: pyfloat
  max_y_axis :: pyfloat
  num_added_traces :: nat
  last_known_changing_parameter :: string
  last_known_readout :: "string option"

text \<open>
  \<open>plot_solution_colours\<close>: the seventeen letters. The list appended to them,
  \<open>np.linspace(0.1, 0.9, 0.05)\<close>, asks for 0.05 points; the versions of
  \<open>numpy\<close> that accept this take it as none. An index past the letters
  raises \<open>IndexError\<close>.
\<close>

definition plot_solution_colours :: "string" where
  "plot_solution_colours = ''krgbycmrgbycmrgby''"

text \<open>The decimal numeral of a trace number, for the default curve name.\<close>

fun digits :: "nat \<Rightarrow> string" where
  "digits n = (if n < 10 then [''0123456789'' ! n]
               else digits (n div 10) @ [''0123456789'' ! (n mod 10)])"

declare digits.simps [simp del]

definition find_changing_parameters :: "dict \<Rightarrow> string list option" where
  "find_changing_parameters params =
     (let changing_list = map fst (filter (\<lambda>(p, v). is_sequence v) params)
      in if length changing_list = 0 then None else Some changing_list)"

definition initialize_plot :: "accumulator \<Rightarrow> accumulator" where
  "initialize_plot self =
     (if fig self = None
      then self\<lparr>fig := Some (Figure (5 * 1.2) (4 * 1.2)),
                axes := Some [Grid, SetYlim (Fin 0) (Fin 1)]\<rparr>
      else self)"

text \<open>
  Lines 142 to 147 of \<open>add_curve\<close>: the running axis bounds, from the swept
  values \<open>x\<close> and the queried values \<open>y\<close>. Each assignment is made before the
  next right-hand side is evaluated, so an exception leaves the earlier ones
  in place.
\<close>

definition update_bounds :: "pyfloat list \<Rightarrow> pyfloat list \<Rightarrow> accumulator \<Rightarrow> unit outcome \<times> accumulator" where
  "update_bounds x y self =
     (if x = [] then (Raised IndexError, self)
      else
        let self = self\<lparr>max_x_axis := nanmax2 (max_x_axis self) (last x)\<rparr>;
            self = self\<lparr>min_x_axis := nanmin2 (min_x_axis self) (hd x)\<rparr>
        in (case nanmin y of
              Inl e \<Rightarrow> (Raised e, self)
            | Inr lo \<Rightarrow>
               (let self = self\<lparr>min_y_axis := lo\<rparr>
                in (case nanmax y of
                      Inl e \<Rightarrow> (Raised e, self)
                    | Inr hi \<Rightarrow>
                        (Returned (), self\<lparr>max_y_axis := nanmax2 (max_y_axis self) hi\<rparr>)))))"

text \<open>
  Lines 134 to 147 of \<open>add_curve\<close>, once the query has returned \<open>y_values\<close>:
  the curve is appended, the names and the counter are updated, the line is
  drawn, the bounds are updated. The calls on the axes are taken to return.
\<close>

definition record_curve :: "dict \<Rightarrow> string option \<Rightarrow> string option \<Rightarrow> string \<Rightarrow> pyfloat list
    \<Rightarrow> curve list \<times> accumulator \<Rightarrow> unit outcome \<times> (curve list \<times> accumulator)" where
  "record_curve parameters readout curve_name changing y_values st =
     (let (curves, self) = st;
          x = (case map_of parameters changing of Some v \<Rightarrow> sequence_of v | None \<Rightarrow> []);
          curves = curves @ [\<lparr>xcoords = x, ycoords = y_values, name = ''''\<rparr>];
          self = self\<lparr>last_known_changing_parameter := changing\<rparr>;
          self = self\<lparr>last_known_readout := readout\<rparr>;
          self = self\<lparr>num_added_traces := num_added_traces self + 1\<rparr>;
          curve_name = (case curve_name of
                          None \<Rightarrow> ''Curve '' @ digits (num_added_traces self)
                        | Some n \<Rightarrow> n)
      in (case axes self of
            None \<Rightarrow> (Raised AttributeError, (curves, self))
          | Some calls \<Rightarrow>
              (if num_added_traces self < length plot_solution_colours
               then
                 (let self = self\<lparr>axes := Some (calls @
                        [Plot x y_values
                           [plot_solution_colours ! num_added_traces self, CHR ''-'']
                           curve_name])\<rparr>;
                      (r, self) = update_bounds x y_values self
                  in (r, (curves, self)))
               else (Raised IndexError, (curves, self)))))"

text \<open>
  \<open>add_curve\<close>. The state is the class's \<open>curves\<close> list and the instance. The
  source calls \<open>self.system.query\<close> itself, not the \<open>query\<close> method of
  \<open>BindingCurve\<close>. \<open>_find_changing_parameters\<close> returns \<open>None\<close> when nothing
  is swept, and \<open>len(None)\<close> raises \<open>TypeError\<close>.
\<close>

definition add_curve :: "dict \<Rightarrow> string option \<Rightarrow> string option \<Rightarrow> curve list \<times> accumulator
    \<Rightarrow> unit outcome \<times> (curve list \<times> accumulator)" where
  "add_curve parameters readout curve_name st =
     (let (curves, self) = st in
      (case system self of
         None \<Rightarrow> (Reported NoSystemConfigured, (curves, self))
       | Some sys \<Rightarrow>
          (let self = initialize_plot self in
           (case find_changing_parameters parameters of
              None \<Rightarrow> (Raised TypeError, (curves, self))
            | Some changing_parameters \<Rightarrow>
               (if length changing_parameters \<noteq> 1
                then (Reported InvalidSweepSpecification, (curves, self))
                else
                  (case (if \<not> analytical sys
                         then system_query sys (Args2 parameters readout)
                         else system_query sys (Args1 parameters)) of
                     Inl e \<Rightarrow> (Raised e, (curves, self))
                   | Inr y_values \<Rightarrow>
                       record_curve parameters readout curve_name
                         (hd changing_parameters) y_values (curves, self)))))))"


subsection \<open>Rendering\<close>

definition upper :: "string \<Rightarrow> string" where
  "upper s = map (\<lambda>c. if CHR ''a'' \<le> c \<and> c \<le> CHR ''z''
                        then char_of (of_char c - (32 :: nat)) else c) s"

definition lower :: "string \<Rightarrow> string" where
  "lower s = map (\<lambda>c. if CHR ''A'' \<le> c \<and> c \<le> CHR ''Z''
                        then char_of (of_char c + (32 :: nat)) else c) s"

text \<open>
  The keyword arguments of \<open>show_plot\<close>, but for the style dictionary, which
  only feeds the font and padding arguments left out of the calls.
\<close>

record show_plot_args =
  title :: string
  xlabel :: "string option"
  ylabel :: "string option"
  min_x :: "pyfloat option"
  max_x :: "pyfloat option"
  min_y :: "pyfloat option"
  max_y :: "pyfloat option"
  log_x_axis :: bool
  log_y_axis :: bool
  png_filename :: "string option"
  svg_filename :: "string option"
  show_legend :: bool

definition default_args :: show_plot_args where
  "default_args = \<lparr>title = ''System simulation'', xlabel = None, ylabel = None,
     min_x = None, max_x = None, min_y = None, max_y = None,
     log_x_axis = False, log_y_axis = False,
     png_filename = None, svg_filename = None, show_legend = True\<rparr>"

text \<open>
  \<open>set_ylim\<close> and \<open>set_xlim\<close> of the chart library refuse a limit that is NaN
  or infinite with \<open>ValueError\<close>, and then set nothing.
\<close>

fun finite_float :: "pyfloat \<Rightarrow> bool" where
  "finite_float (Fin _) = True"
| "finite_float _ = False"

definition set_ylim :: "pyfloat \<Rightarrow> pyfloat \<Rightarrow> axes_call list \<Rightarrow> exn + axes_call list" where
  "set_ylim lo hi calls =
     (if finite_float lo \<and> finite_float hi then Inr (calls @ [SetYlim lo hi])
      else Inl ValueError)"

definition set_xlim :: "pyfloat \<Rightarrow> pyfloat \<Rightarrow> axes_call list \<Rightarrow> exn + axes_call list" where
  "set_xlim lo hi calls =
     (if finite_float lo \<and> finite_float hi then Inr (calls @ [SetXlim lo hi])
      else Inl ValueError)"

text \<open>
  Lines 192 to 210 of \<open>show_plot\<close>: the explicit bounds overwrite the
  accumulated ones, then the limits and scales are set on the axes. Without
  axes (no curve and no points were added) the first call on them raises
  \<open>AttributeError\<close>. An exception of a limit call leaves the method with the
  bounds overwritten and the earlier calls made. The scale calls are taken to
  return.
\<close>

definition set_limits :: "show_plot_args \<Rightarrow> accumulator \<Rightarrow> unit outcome \<times> accumulator" where
  "set_limits a self =
     (let self = (case min_x a of None \<Rightarrow> self | Some v \<Rightarrow> self\<lparr>min_x_axis := v\<rparr>);
          self = (case max_x a of None \<Rightarrow> self | Some v \<Rightarrow> self\<lparr>max_x_axis := v\<rparr>);
          self = (case min_y a of None \<Rightarrow> self | Some v \<Rightarrow> self\<lparr>min_y_axis := v\<rparr>);
          self = (case max_y a of None \<Rightarrow> self | Some v \<Rightarrow> self\<lparr>max_y_axis := v\<rparr>)
      in (case axes self of
            None \<Rightarrow> (Raised AttributeError, self)
          | Some calls \<Rightarrow>
             (case (if max_y a = None
                    then set_ylim (min_y_axis self) (fmul (max_y_axis self) (Fin 1.1)) calls
                    else set_ylim (min_y_axis self) (max_y_axis self) calls) of
                Inl e \<Rightarrow> (Raised e, self)
              | Inr calls \<Rightarrow>
                 (case set_xlim (min_x_axis self) (max_x_axis self) calls of
                    Inl e \<Rightarrow> (Raised e, self\<lparr>axes := Some calls\<rparr>)
                  | Inr calls \<Rightarrow>
                     (let calls = (if log_x_axis a then calls @ [SetXscale ''log''] else calls);
                          calls = (if log_y_axis a then calls @ [SetYscale ''log''] else calls)
                      in (Returned (), self\<lparr>axes := Some calls\<rparr>))))))"

text \<open>
  \<open>show_plot\<close>: the limits, then the labels, the title and the legend on the
  axes, then the \<open>pyplot\<close> calls, which are returned. The default y label is
  the last readout in upper case; \<open>None.upper()\<close> raises \<open>AttributeError\<close>.
\<close>

definition show_plot :: "show_plot_args \<Rightarrow> accumulator \<Rightarrow> plt_call list outcome \<times> accumulator" where
  "show_plot a self =
     (case set_limits a self of
        (Raised e, self) \<Rightarrow> (Raised e, self)
      | (Reported f, self) \<Rightarrow> (Reported f, self)
      | (Returned u, self) \<Rightarrow>
         (let calls = (case axes self of None \<Rightarrow> [] | Some cs \<Rightarrow> cs);
              calls = calls @
                [SetXlabel (case xlabel a of
                              None \<Rightarrow> ''['' @ upper (last_known_changing_parameter self) @ '']''
                            | Some l \<Rightarrow> l)]
          in (case (case ylabel a of
                      None \<Rightarrow> (case last_known_readout self of
                                  None \<Rightarrow> Inl AttributeError
                                | Some r \<Rightarrow> Inr (''['' @ upper r @ '']''))
                    | Some l \<Rightarrow> Inr l) of
                Inl e \<Rightarrow> (Raised e, self\<lparr>axes := Some calls\<rparr>)
              | Inr l \<Rightarrow>
                 (let calls = calls @ [SetYlabel l];
                      calls = calls @ [SetTitle (title a)];
                      calls = (if show_legend a then calls @ [Legend] else calls);
                      plt = (case png_filename a of None \<Rightarrow> [] | Some f \<Rightarrow> [SaveFig f]);
                      plt = plt @ (case svg_filename a of None \<Rightarrow> [] | Some f \<Rightarrow> [SaveFig f]);
                      plt = plt @ [Show]
                  in (Returned plt, self\<lparr>axes := Some calls\<rparr>)))))"

subsection \<open>Construction and instances\<close>

text \<open>
  The six built-in system classes are defined outside this file and are taken
  as given.
\<close>

record builtin_systems =
  System_one_to_one_analytical_pl :: binding_system
  System_one_to_one :: binding_system
  System_homodimer_formation_analytical_pp :: binding_system
  System_homodimer_formation :: binding_system
  System_competition :: binding_system
  System_homodimer_breaking :: binding_system

text \<open>
  The argument of the constructor: a name, a subclass of \<open>BindingSystem\<close>,
  another class, or something that is no class at all (\<open>issubclass\<close> then
  raises \<open>TypeError\<close>).
\<close>

datatype system_arg = SystemName string | SystemClass binding_system | OtherClass | NotAClass

definition class_defaults :: accumulator where
  "class_defaults = \<lparr>system = None, fig = None, axes = None,
     min_x_axis = Fin 0, max_x_axis = Fin 0, min_y_axis = Fin 0, max_y_axis = Fin 0,
     num_added_traces = 0, last_known_changing_parameter = ''X'',
     last_known_readout = Some ''Y''\<rparr>"

text \<open>
  \<open>__init__\<close>. With no system found it prints a message and returns: the
  instance exists, with \<open>system\<close> still \<open>None\<close>.
\<close>

definition init :: "builtin_systems \<Rightarrow> system_arg \<Rightarrow> accumulator outcome" where
  "init b binding_system =
     (let self = class_defaults in
      (case binding_system of
         SystemName s \<Rightarrow>
          (let n = lower s;
               self = (if n = ''simple'' \<or> n = ''1:1''
                       then self\<lparr>system := Some (System_one_to_one_analytical_pl b)\<rparr> else self);
               self = (if n = ''simplekinetic'' \<or> n = ''simple kinetic''
                          \<or> n = ''1:1 kinetic'' \<or> n = ''1:1kinetic''
                       then self\<lparr>system := Some (System_one_to_one b)\<rparr> else self);
               self = (if n = ''homodimer'' \<or> n = ''homodimer formation''
                       then self\<lparr>system := Some (System_homodimer_formation_analytical_pp b)\<rparr>
                       else self);
               self = (if n = ''homodimerkinetic'' \<or> n = ''homodimer kinetic''
                          \<or> n = ''homodimerformationkinetic''
                          \<or> n = ''homodimer formation kinetic''
                       then self\<lparr>system := Some (System_homodimer_formation b)\<rparr> else self);
               self = (if n = ''competition'' \<or> n = ''1:1:1''
                       then self\<lparr>system := Some (System_competition b)\<rparr> else self);
               self = (if n = ''homodimerbreaking'' \<or> n = ''homodimer breaking''
                       then self\<lparr>system := Some (System_homodimer_breaking b)\<rparr> else self)
           in Returned self)
       | SystemClass sys \<Rightarrow> Returned (self\<lparr>system := Some sys\<rparr>)
       | OtherClass \<Rightarrow> Returned self
       | NotAClass \<Rightarrow> Raised TypeError))"

text \<open>
  The objects of a program with several accumulators: the class, that is its
  one \<open>curves\<close> list, and the instances by reference. \<open>self.curves\<close> on any
  instance is the list of the class, as no instance binds the name.
\<close>

record heap =
  class_curves :: "curve list"
  instances :: "nat \<Rightarrow> accumulator"
  next_instance :: nat

definition empty_heap :: heap where
  "empty_heap = \<lparr>class_curves = [], instances = (\<lambda>_. class_defaults), next_instance = 0\<rparr>"

definition BindingCurve :: "builtin_systems \<Rightarrow> system_arg \<Rightarrow> heap \<Rightarrow> nat outcome \<times> heap" where
  "BindingCurve b binding_system h =
     (case init b binding_system of
        Returned self \<Rightarrow>
          (Returned (next_instance h),
           h\<lparr>instances := (instances h)(next_instance h := self),
              next_instance := next_instance h + 1\<rparr>)
      | Reported f \<Rightarrow> (Reported f, h)
      | Raised e \<Rightarrow> (Raised e, h))"

definition curves_of :: "heap \<Rightarrow> nat \<Rightarrow> curve list" where
  "curves_of h r = class_curves h"

definition add_curve_on :: "nat \<Rightarrow> dict \<Rightarrow> string option \<Rightarrow> string option \<Rightarrow> heap
    \<Rightarrow> unit outcome \<times> heap" where
  "add_curve_on r parameters readout curve_name h =
     (let (res, (curves, self)) =
            add_curve parameters readout curve_name (class_curves h, instances h r)
      in (res, h\<lparr>class_curves := curves, instances := (instances h)(r := self)\<rparr>))"

section \<open>Fitting\<close>

subsection \<open>Dictionaries as objects\<close>

text \<open>
  \<open>fit\<close> copies the caller's dictionary and the residual function writes into
  the dictionary it is handed, so dictionaries are objects here: a store maps
  a reference to the dictionary's present content. The store also counts the
  runs of the external minimizer.
\<close>

record world =
  dict_at :: "nat \<Rightarrow> dict"
  next_ref :: nat
  minimizer_runs :: nat

text \<open>\<open>dict(d)\<close>: a new dictionary object with the entries of \<open>d\<close>.\<close>

definition new_dict :: "dict \<Rightarrow> world \<Rightarrow> nat \<times> world" where
  "new_dict d w =
     (next_ref w, w\<lparr>dict_at := (dict_at w)(next_ref w := d), next_ref := next_ref w + 1\<rparr>)"

subsection \<open>The residual function\<close>

text \<open>
  The difference of two one-dimensional arrays, as \<open>numpy\<close> broadcasts it:
  equal lengths, or one side of length one; \<open>ValueError\<close> otherwise.
\<close>

definition array_sub :: "pyfloat list \<Rightarrow> pyfloat list \<Rightarrow> exn + pyfloat list" where
  "array_sub a b =
     (if length a = length b then Inr (map2 fsub a b)
      else if length a = 1 then Inr (map (\<lambda>v. fsub (hd a) v) b)
      else if length b = 1 then Inr (map (\<lambda>v. fsub v (hd b)) a)
      else Inl ValueError)"

type_synonym parameters = "(string \<times> parameter) list"

text \<open>
  Lines 318 and 319: every trial parameter object is bound, under its name, in
  the dictionary.
\<close>

definition overlay :: "dict \<Rightarrow> parameters \<Rightarrow> dict" where
  "overlay d params = foldl (\<lambda>d (value, p). setitem d value (Param p)) d params"

text \<open>
  \<open>_residual\<close>. \<open>system_parameters\<close> is the reference it is given: the loop
  writes into that dictionary itself. The \<open>to_fit\<close> argument is not read.
\<close>

definition residual :: "accumulator \<Rightarrow> parameters \<Rightarrow> nat \<Rightarrow> (string \<times> pyfloat) list \<Rightarrow> pyfloat list
    \<Rightarrow> string option \<Rightarrow> world \<Rightarrow> (exn + pyfloat list) \<times> world" where
  "residual self params system_parameters to_fit y readout w =
     (let d = overlay (dict_at w system_parameters) params;
          w = w\<lparr>dict_at := (dict_at w)(system_parameters := d)\<rparr>
      in (case system self of
            None \<Rightarrow> (Inl AttributeError, w)
          | Some sys \<Rightarrow>
             (case (if \<not> analytical sys
                    then system_query sys (Args2 d readout)
                    else system_query sys (Args1 d)) of
                Inl e \<Rightarrow> (Inl e, w)
              | Inr predicted \<Rightarrow> (array_sub predicted y, w))))"

subsection \<open>The minimizer (external)\<close>

text \<open>
  The minimizer is not part of this file. It is taken as a strategy: from the
  variables registered with it and the trials made so far, with their
  residuals, it chooses to evaluate the residual function at another trial, to
  finish with its result parameters, or to raise. It reaches the program's
  objects through the residual function only. An exception of the residual
  function passes through it. A parameter object is modelled by its value:
  what \<open>fit\<close> reads back from the copy is the value the object had when the
  residual function last bound it.

  A run is bounded by fuel; \<open>None\<close> is a minimizer that has not finished.
\<close>

datatype step = Evaluate parameters | Finish parameters | Abort exn

type_synonym minimizer = "parameters \<Rightarrow> (parameters \<times> pyfloat list) list \<Rightarrow> step"

fun minimize :: "nat \<Rightarrow> minimizer \<Rightarrow> (parameters \<Rightarrow> world \<Rightarrow> (exn + pyfloat list) \<times> world)
    \<Rightarrow> parameters \<Rightarrow> (parameters \<times> pyfloat list) list \<Rightarrow> world
    \<Rightarrow> (exn + parameters) option \<times> world" where
  "minimize 0 lm fcn params history w = (None, w)"
| "minimize (Suc fuel) lm fcn params history w =
     (case lm params history of
        Finish result \<Rightarrow> (Some (Inr result), w)
      | Abort e \<Rightarrow> (Some (Inl e), w)
      | Evaluate trial \<Rightarrow>
         (case fcn trial w of
            (Inl e, w') \<Rightarrow> (Some (Inl e), w')
          | (Inr r, w') \<Rightarrow> minimize fuel lm fcn params (history @ [(trial, r)]) w'))"

subsection \<open>\<open>fit\<close>\<close>

text \<open>
  Lines 286 to 294: one variable per entry of \<open>to_fit\<close>, with the caller's
  bounds when it has some for the name, unbounded otherwise.
\<close>

definition lmfit_parameters :: "(string \<times> pyfloat) list \<Rightarrow> (string \<times> pyfloat \<times> pyfloat) list
    \<Rightarrow> parameters" where
  "lmfit_parameters to_fit bounds =
     foldl (\<lambda>params (varname, guess).
              (let (bnd_min, bnd_max) =
                     (case map_of bounds varname of
                        None \<Rightarrow> (NegInf, PosInf)
                      | Some (lo, hi) \<Rightarrow> (lo, hi))
               in setitem params varname
                    \<lparr>par_value = guess, par_min = bnd_min, par_max = bnd_max,
                     par_stderr = None\<rparr>))
       [] to_fit"

text \<open>
  Lines 300 to 302: a parameter object bound in the copy is replaced by its
  value.
\<close>

definition unwrap_parameters :: "dict \<Rightarrow> dict" where
  "unwrap_parameters d =
     map (\<lambda>(k, v). (k, (case v of Param p \<Rightarrow> Scalar (par_value p) | _ \<Rightarrow> v))) d"

text \<open>
  \<open>fit\<close>. \<open>system_parameters\<close> is the reference of the caller's dictionary;
  \<open>y_parameter\<close> is a string (\<open>lower\<close> is called on it first); \<open>x_parameter\<close>
  is accepted and not read. The result is the reference of the copy and the
  standard errors by name.
\<close>

definition fit :: "nat \<Rightarrow> minimizer \<Rightarrow> accumulator \<Rightarrow> nat \<Rightarrow> (string \<times> pyfloat) list \<Rightarrow> pyfloat list
    \<Rightarrow> string \<Rightarrow> string \<Rightarrow> (string \<times> pyfloat \<times> pyfloat) list option \<Rightarrow> world
    \<Rightarrow> (nat \<times> (string \<times> pyfloat option) list) outcome option \<times> world" where
  "fit fuel lm self system_parameters to_fit ycoords' x_parameter y_parameter bounds w =
     (let y_parameter = lower y_parameter;
          (system_parameters_copy, w) = new_dict (dict_at w system_parameters) w
      in if length (map fst to_fit) = 0 then (Some (Reported NothingToFit), w)
         else
          (case system self of
             None \<Rightarrow> (Some (Raised AttributeError), w)
           | Some sys \<Rightarrow>
              (let missing = sort (remdups (filter
                       (\<lambda>a. a \<notin> set (map fst (dict_at w system_parameters_copy) @ map fst to_fit))
                       (arguments sys)))
               in if length missing > 0 then (Some (Reported (MissingParameters missing)), w)
                  else
                   (let bounds = (case bounds of None \<Rightarrow> [] | Some b \<Rightarrow> b);
                        params = lmfit_parameters to_fit bounds;
                        w = w\<lparr>minimizer_runs := minimizer_runs w + 1\<rparr>
                    in (case minimize fuel lm
                               (\<lambda>trial. residual self trial system_parameters_copy to_fit ycoords'
                                          (Some y_parameter))
                               params [] w of
                          (None, w) \<Rightarrow> (None, w)
                        | (Some (Inl e), w) \<Rightarrow> (Some (Raised e), w)
                        | (Some (Inr result_params), w) \<Rightarrow>
                           (let d = unwrap_parameters (dict_at w system_parameters_copy);
                                w = w\<lparr>dict_at := (dict_at w)(system_parameters_copy := d)\<rparr>
                            in (Some (Returned (system_parameters_copy,
                                        map (\<lambda>(p, par). (p, par_stderr par)) result_params)),
                                w)))))))"

section \<open>Observations and example inputs\<close>

text \<open>The y limits set on an axes object, oldest first.\<close>

fun ylim_calls :: "axes_call list \<Rightarrow> (pyfloat \<times> pyfloat) list" where
  "ylim_calls [] = []"
| "ylim_calls (SetYlim lo hi # cs) = (lo, hi) # ylim_calls cs"
| "ylim_calls (c # cs) = ylim_calls cs"

text \<open>
  Two caller-supplied systems for the concrete runs below: both answer the
  swept values of \<open>p\<close> scaled by \<open>k\<close>; the first is analytical, the second
  takes a readout (and does not look at it). Each raises \<open>TypeError\<close> when
  called with the other's number of arguments.
\<close>

fun scalar_of :: "pval option \<Rightarrow> pyfloat" where
  "scalar_of (Some (Scalar v)) = v"
| "scalar_of (Some (Param p)) = par_value p"
| "scalar_of _ = NaN"

definition scaled_sweep :: "dict \<Rightarrow> pyfloat list" where
  "scaled_sweep d = map (fmul (scalar_of (map_of d ''k'')))
     (case map_of d ''p'' of Some v \<Rightarrow> sequence_of v | None \<Rightarrow> [])"

definition linear_system :: binding_system where
  "linear_system = \<lparr>analytical = True, arguments = [''p'', ''k''],
     system_query = (\<lambda>q. case q of Args1 d \<Rightarrow> Inr (scaled_sweep d) | Args2 d r \<Rightarrow> Inl TypeError)\<rparr>"

definition kinetic_system :: binding_system where
  "kinetic_system = \<lparr>analytical = False, arguments = [''p'', ''k''],
     system_query = (\<lambda>q. case q of Args1 d \<Rightarrow> Inl TypeError | Args2 d r \<Rightarrow> Inr (scaled_sweep d))\<rparr>"

definition linear_curve :: accumulator where
  "linear_curve = class_defaults\<lparr>system := Some linear_system\<rparr>"

definition kinetic_curve :: accumulator where
  "kinetic_curve = class_defaults\<lparr>system := Some kinetic_system\<rparr>"

definition example_systems :: builtin_systems where
  "example_systems = \<lparr>System_one_to_one_analytical_pl = linear_system,
     System_one_to_one = kinetic_system,
     System_homodimer_formation_analytical_pp = linear_system,
     System_homodimer_formation = kinetic_system,
     System_competition = kinetic_system,
     System_homodimer_breaking = kinetic_system\<rparr>"

text \<open>Parameter mappings: one sweep (twice), two sweeps, none.\<close>

definition sweep_k1 :: dict where
  "sweep_k1 = [(''p'', NdArray [Fin 1, Fin 2]), (''k'', Scalar (Fin 1))]"

definition sweep_k5 :: dict where
  "sweep_k5 = [(''p'', NdArray [Fin 1, Fin 2]), (''k'', Scalar (Fin 5))]"

definition two_sweeps :: dict where
  "two_sweeps = [(''p'', NdArray [Fin 0, Fin 1]), (''k'', PyList [Fin 1, Fin 2])]"

definition no_sweep :: dict where
  "no_sweep = [(''p'', Scalar (Fin 1)), (''k'', Scalar (Fin 1))]"

definition sweep_nan :: dict where
  "sweep_nan = [(''p'', NdArray [Fin 1, Fin 2]), (''k'', Scalar NaN)]"

text \<open>
  An accumulator with one curve, one with a curve of NaN only, and a program
  with two accumulators.
\<close>

definition plotted :: accumulator where
  "plotted = snd (snd (add_curve sweep_k1 (Some ''pl'') None ([], linear_curve)))"

definition plotted_nan :: accumulator where
  "plotted_nan = snd (snd (add_curve sweep_nan (Some ''pl'') None ([], linear_curve)))"

definition two_instances :: heap where
  "two_instances = snd (BindingCurve example_systems (SystemName ''simple'')
                     (snd (BindingCurve example_systems (SystemName ''Simple'') empty_heap)))"

text \<open>
  Stores: an empty one, and one holding a caller's dictionary at reference 0.
\<close>

definition empty_world :: world where
  "empty_world = \<lparr>dict_at = (\<lambda>_. []), next_ref = 0, minimizer_runs = 0\<rparr>"

definition base_world :: world where
  "base_world = \<lparr>dict_at = (\<lambda>_. [])(0 := [(''p'', NdArray [Fin 1, Fin 2]), (''k'', Scalar (Fin 1))]),
     next_ref = 1, minimizer_runs = 0\<rparr>"

definition aliased_world :: world where
  "aliased_world = \<lparr>dict_at = (\<lambda>_. [])(5 := [(''p'', NdArray [Fin 1, Fin 2]), (''k'', Scalar (Fin 1))]),
     next_ref = 6, minimizer_runs = 3\<rparr>"

definition trial_k2 :: parameters where
  "trial_k2 = [(''k'', \<lparr>par_value = Fin 2, par_min = NegInf, par_max = PosInf, par_stderr = None\<rparr>)]"

text \<open>
  Minimizers: one that finishes at once with the variables as registered, and
  one that evaluates the residual at \<open>k = 2\<close> and then finishes there.
\<close>

definition idle_minimizer :: minimizer where
  "idle_minimizer params history = Finish params"

definition one_step_minimizer :: minimizer where
  "one_step_minimizer params history =
     (if history = []
      then Evaluate trial_k2
      else Finish [(''k'', \<lparr>par_value = Fin 2, par_min = NegInf, par_max = PosInf,
                           par_stderr = Some (Fin 0)\<rparr>)])"

section \<open>Properties of \<open>add_curve\<close>\<close>

lemmas run_defs = add_curve_def find_changing_parameters_def initialize_plot_def record_curve_def
  update_bounds_def plot_solution_colours_def nanmax2_def nanmin2_def Let_def
  linear_curve_def kinetic_curve_def class_defaults_def linear_system_def kinetic_system_def
  scaled_sweep_def sweep_k1_def sweep_k5_def two_sweeps_def no_sweep_def sweep_nan_def

text \<open>
  C1, as the code has it, for a parameter mapping with two or more
  sequence-valued entries. With a system configured, \<open>add_curve\<close> reports
  \<open>InvalidSweepSpecification\<close>; the curve list, the four bounds, the trace
  counter and the last known names are as before. The figure is made before
  the sweep is checked: an accumulator without one gets a figure and axes, one
  with a figure is left as it was. With no system configured, \<open>add_curve\<close>
  reports \<open>NoSystemConfigured\<close> and nothing at all has changed.
\<close>

theorem add_curve_invalid_sweep:
  assumes "2 \<le> length (filter (\<lambda>(p, v). is_sequence v) parameters)"
  shows "add_curve parameters readout curve_name (curves, self)
           = (case system self of
                None \<Rightarrow> (Reported NoSystemConfigured, (curves, self))
              | Some sys \<Rightarrow> (Reported InvalidSweepSpecification, (curves, initialize_plot self)))
         \<and> system (initialize_plot self) = system self
         \<and> min_x_axis (initialize_plot self) = min_x_axis self
         \<and> max_x_axis (initialize_plot self) = max_x_axis self
         \<and> min_y_axis (initialize_plot self) = min_y_axis self
         \<and> max_y_axis (initialize_plot self) = max_y_axis self
         \<and> num_added_traces (initialize_plot self) = num_added_traces self
         \<and> last_known_changing_parameter (initialize_plot self) = last_known_changing_parameter self
         \<and> last_known_readout (initialize_plot self) = last_known_readout self
         \<and> (if fig self = None
             then fig (initialize_plot self) = Some (Figure (5 * 1.2) (4 * 1.2))
                \<and> axes (initialize_plot self) = Some [Grid, SetYlim (Fin 0) (Fin 1)]
             else initialize_plot self = self)"
proof -
  have "add_curve parameters readout curve_name (curves, self)
           = (case system self of
                None \<Rightarrow> (Reported NoSystemConfigured, (curves, self))
              | Some sys \<Rightarrow> (Reported InvalidSweepSpecification, (curves, initialize_plot self)))"
    using assms
    by (auto simp add: add_curve_def find_changing_parameters_def Let_def split: option.splits)
  then show ?thesis by (simp add: initialize_plot_def)
qed

text \<open>
  Two sweeps on a new accumulator of the linear system, and on one with no
  system.
\<close>

theorem add_curve_invalid_sweep_witness:
  "add_curve two_sweeps (Some ''pl'') None ([], linear_curve)
     = (Reported InvalidSweepSpecification, ([], initialize_plot linear_curve))
   \<and> num_added_traces (initialize_plot linear_curve) = 0
   \<and> axes (initialize_plot linear_curve) = Some [Grid, SetYlim (Fin 0) (Fin 1)]
   \<and> add_curve two_sweeps (Some ''pl'') None ([], class_defaults)
     = (Reported NoSystemConfigured, ([], class_defaults))"
proof -
  have a: "system linear_curve = Some linear_system" by (simp add: linear_curve_def)
  have a': "system class_defaults = None" by (simp add: class_defaults_def)
  have b: "2 \<le> length (filter (\<lambda>(p, v). is_sequence v) two_sweeps)"
    by (simp add: two_sweeps_def)
  have c: "fig linear_curve = None" by (simp add: linear_curve_def class_defaults_def)
  from add_curve_invalid_sweep [OF b, of "Some ''pl''" None "[]" linear_curve]
    add_curve_invalid_sweep [OF b, of "Some ''pl''" None "[]" class_defaults] a a' c
  show ?thesis by (simp add: linear_curve_def class_defaults_def)
qed

text \<open>
  C1 as stated fails three times over. With no sequence-valued entry the call
  raises \<open>TypeError\<close>; with two of them on a new accumulator the figure is no
  longer \<open>None\<close> afterwards; with no system configured the report is
  \<open>NoSystemConfigured\<close>.
\<close>

theorem add_curve_invalid_sweep_counterexample:
  "fst (add_curve no_sweep (Some ''pl'') None ([], linear_curve)) = Raised TypeError
   \<and> fig linear_curve = None
   \<and> fig (snd (snd (add_curve two_sweeps (Some ''pl'') None ([], linear_curve))))
       = Some (Figure 6 (24 / 5))
   \<and> add_curve two_sweeps (Some ''pl'') None ([], class_defaults)
       = (Reported NoSystemConfigured, ([], class_defaults))"
  by (simp add: run_defs)

text \<open>
  What a call that returns has done to the bounds: the x bounds and the upper
  y bound are merged with the previous ones, the lower y bound is the current
  curve's minimum.
\<close>

lemma update_bounds_returned:
  assumes "update_bounds x y self = (Returned (), self')"
  shows "x \<noteq> [] \<and> y \<noteq> []
     \<and> max_x_axis self' = nanmax2 (max_x_axis self) (last x)
     \<and> min_x_axis self' = nanmin2 (min_x_axis self) (hd x)
     \<and> nanmin y = Inr (min_y_axis self')
     \<and> (\<exists>hi. nanmax y = Inr hi \<and> max_y_axis self' = nanmax2 (max_y_axis self) hi)"
  using assms
  by (cases y) (auto simp add: update_bounds_def Let_def split: if_splits sum.splits)

text \<open>
  C2 fails on the code. Two curves are added to a new accumulator, the first
  with y values 1 and 2, the second with 5 and 10. Both calls return. The
  upper y bound is then 10, merged; the lower y bound is 5, the minimum of the
  second curve alone, although the first curve goes down to 1.
\<close>

theorem add_curve_min_y_not_merged:
  "fst (add_curve sweep_k1 (Some ''pl'') None ([], linear_curve)) = Returned ()
   \<and> min_y_axis (snd (snd (add_curve sweep_k1 (Some ''pl'') None ([], linear_curve)))) = Fin 1
   \<and> fst (add_curve sweep_k5 (Some ''pl'') None
            (snd (add_curve sweep_k1 (Some ''pl'') None ([], linear_curve)))) = Returned ()
   \<and> map ycoords (fst (snd (add_curve sweep_k5 (Some ''pl'') None
            (snd (add_curve sweep_k1 (Some ''pl'') None ([], linear_curve))))))
       = [[Fin 1, Fin 2], [Fin 5, Fin 10]]
   \<and> min_y_axis (snd (snd (add_curve sweep_k5 (Some ''pl'') None
            (snd (add_curve sweep_k1 (Some ''pl'') None ([], linear_curve)))))) = Fin 5
   \<and> max_y_axis (snd (snd (add_curve sweep_k5 (Some ''pl'') None
            (snd (add_curve sweep_k1 (Some ''pl'') None ([], linear_curve)))))) = Fin 10"
  by (simp add: run_defs)




subsection \<open>Two accumulators\<close>

lemma lower_simple: "lower ''Simple'' = ''simple''" "lower ''simple'' = ''simple''"
  by code_simp+

lemma init_simple:
  "init example_systems (SystemName ''simple'') = Returned linear_curve"
  "init example_systems (SystemName ''Simple'') = Returned linear_curve"
  by (simp_all add: init_def lower_simple Let_def example_systems_def linear_curve_def)

text \<open>
  What holds of the claim: the attributes of another instance are untouched.
\<close>

lemma add_curve_on_other_instance:
  "r' \<noteq> r \<Longrightarrow>
     instances (snd (add_curve_on r parameters readout curve_name h)) r' = instances h r'"
  by (simp add: add_curve_on_def split: prod.splits)

text \<open>
  C7 fails on the code. Two accumulators are constructed, references 0 and 1,
  and a curve is added through the first. The bounds and the trace counter of
  the second are as before, but its curve list, empty before, now holds the
  curve: both see the list of the class.
\<close>

theorem curves_shared_between_instances:
  "fst (BindingCurve example_systems (SystemName ''Simple'') empty_heap) = Returned 0
   \<and> fst (BindingCurve example_systems (SystemName ''simple'')
            (snd (BindingCurve example_systems (SystemName ''Simple'') empty_heap))) = Returned 1
   \<and> curves_of two_instances 1 = []
   \<and> fst (add_curve_on 0 sweep_k1 (Some ''pl'') None two_instances) = Returned ()
   \<and> curves_of (snd (add_curve_on 0 sweep_k1 (Some ''pl'') None two_instances)) 1
       = [\<lparr>xcoords = [Fin 1, Fin 2], ycoords = [Fin 1, Fin 2], name = ''''\<rparr>]
   \<and> num_added_traces
        (instances (snd (add_curve_on 0 sweep_k1 (Some ''pl'') None two_instances)) 1) = 0
   \<and> max_y_axis
        (instances (snd (add_curve_on 0 sweep_k1 (Some ''pl'') None two_instances)) 1) = Fin 0"
  by (simp add: two_instances_def BindingCurve_def init_simple empty_heap_def curves_of_def
        add_curve_on_def run_defs)

section \<open>Properties of \<open>show_plot\<close>\<close>

lemma ylim_calls_append: "ylim_calls (xs @ ys) = ylim_calls xs @ ylim_calls ys"
  by (induction xs rule: ylim_calls.induct) simp_all

text \<open>
  The three ways through the limits: no axes, a y limit refused, the y limits
  set.
\<close>

lemma set_limits_no_axes:
  assumes "axes self = None"
  shows "\<exists>self1. set_limits a self = (Raised AttributeError, self1) \<and> axes self1 = None"
  using assms
  by (cases "min_x a"; cases "max_x a"; cases "min_y a"; cases "max_y a")
     (simp_all add: set_limits_def Let_def)

lemma set_limits_refused:
  assumes "axes self = Some calls"
    and "\<not> (finite_float (case min_y a of None \<Rightarrow> min_y_axis self | Some v \<Rightarrow> v)
           \<and> finite_float (case max_y a of None \<Rightarrow> fmul (max_y_axis self) (Fin 1.1)
                                        | Some v \<Rightarrow> v))"
  shows "\<exists>self1. set_limits a self = (Raised ValueError, self1) \<and> axes self1 = Some calls"
  using assms
  by (cases "min_x a"; cases "max_x a"; cases "min_y a"; cases "max_y a")
     (auto simp add: set_limits_def set_ylim_def Let_def)

lemma set_limits_ylim:
  assumes "axes self = Some calls"
    and "finite_float (case min_y a of None \<Rightarrow> min_y_axis self | Some v \<Rightarrow> v)"
    and "finite_float (case max_y a of None \<Rightarrow> fmul (max_y_axis self) (Fin 1.1) | Some v \<Rightarrow> v)"
  shows "\<exists>r self1 cs. set_limits a self = (r, self1) \<and> axes self1 = Some cs
         \<and> (\<forall>f. r \<noteq> Reported f)
         \<and> ylim_calls cs = ylim_calls calls @
             [(case min_y a of None \<Rightarrow> min_y_axis self | Some v \<Rightarrow> v,
               case max_y a of None \<Rightarrow> fmul (max_y_axis self) (Fin 1.1) | Some v \<Rightarrow> v)]"
  using assms
  by (cases "min_x a"; cases "max_x a"; cases "min_y a"; cases "max_y a")
     (auto simp add: set_limits_def set_ylim_def set_xlim_def Let_def ylim_calls_append)

lemma show_plot_after_limits:
  assumes "set_limits a self = (r, self1)" and "axes self1 = Some cs" and "\<forall>f. r \<noteq> Reported f"
  shows "\<exists>cs'. axes (snd (show_plot a self)) = Some cs' \<and> ylim_calls cs' = ylim_calls cs"
  using assms
  by (cases r)
     (auto simp add: show_plot_def Let_def ylim_calls_append split: option.splits)

text \<open>
  C8, as the code has it. On an accumulator without axes (nothing was added
  yet) \<open>show_plot\<close> raises \<open>AttributeError\<close> and there are still no axes. On an
  accumulator with axes, when the two y limits are finite numbers,
  \<open>show_plot\<close> sets the y limits once, after whatever was set before: without
  \<open>max_y\<close> the upper limit is the accumulated upper y bound times 1.1, with
  \<open>max_y\<close> it is that value itself (the lower limit is \<open>min_y\<close> when given, the
  accumulated lower bound otherwise). When one of the two is NaN or infinite,
  \<open>show_plot\<close> raises \<open>ValueError\<close> and has set no y limit.
\<close>

theorem show_plot_upper_y_limit:
  "(case axes self of
      None \<Rightarrow>
        fst (show_plot a self) = Raised AttributeError \<and> axes (snd (show_plot a self)) = None
    | Some calls \<Rightarrow>
        (if finite_float (case min_y a of None \<Rightarrow> min_y_axis self | Some v \<Rightarrow> v)
          \<and> finite_float (case max_y a of None \<Rightarrow> fmul (max_y_axis self) (Fin 1.1) | Some v \<Rightarrow> v)
         then ylim_calls (case axes (snd (show_plot a self)) of None \<Rightarrow> [] | Some cs \<Rightarrow> cs)
              = ylim_calls calls @
                  [(case min_y a of None \<Rightarrow> min_y_axis self | Some v \<Rightarrow> v,
                    case max_y a of None \<Rightarrow> fmul (max_y_axis self) (Fin 1.1) | Some v \<Rightarrow> v)]
         else fst (show_plot a self) = Raised ValueError
            \<and> axes (snd (show_plot a self)) = Some calls))"
proof (cases "axes self")
  case None
  from set_limits_no_axes [OF None, of a]
  obtain self1 where "set_limits a self = (Raised AttributeError, self1)" "axes self1 = None"
    by blast
  then show ?thesis using None by (simp add: show_plot_def)
next
  case (Some calls)
  show ?thesis
  proof (cases "finite_float (case min_y a of None \<Rightarrow> min_y_axis self | Some v \<Rightarrow> v)
          \<and> finite_float (case max_y a of None \<Rightarrow> fmul (max_y_axis self) (Fin 1.1) | Some v \<Rightarrow> v)")
    case True
    from set_limits_ylim [OF Some, of a] True
    obtain r self1 cs where s: "set_limits a self = (r, self1)" and c: "axes self1 = Some cs"
      and nr: "\<forall>f. r \<noteq> Reported f"
      and y: "ylim_calls cs = ylim_calls calls @
             [(case min_y a of None \<Rightarrow> min_y_axis self | Some v \<Rightarrow> v,
               case max_y a of None \<Rightarrow> fmul (max_y_axis self) (Fin 1.1) | Some v \<Rightarrow> v)]"
      by blast
    from show_plot_after_limits [OF s c nr]
    obtain cs' where "axes (snd (show_plot a self)) = Some cs'" "ylim_calls cs' = ylim_calls cs"
      by blast
    then show ?thesis using Some True y by simp
  next
    case False
    from set_limits_refused [OF Some False]
    obtain self1 where "set_limits a self = (Raised ValueError, self1)" "axes self1 = Some calls"
      by blast
    then show ?thesis using Some False by (simp add: show_plot_def)
  qed
qed

lemma plotted_eq:
  "axes plotted = Some [Grid, SetYlim (Fin 0) (Fin 1),
                        Plot [Fin 1, Fin 2] [Fin 1, Fin 2] ''r-'' ''Curve 1'']
   \<and> max_y_axis plotted = Fin 2 \<and> min_y_axis plotted = Fin 1"
  by (simp add: plotted_def run_defs digits.simps)

lemma plotted_nan_eq:
  "axes plotted_nan = Some [Grid, SetYlim (Fin 0) (Fin 1),
                            Plot [Fin 1, Fin 2] [NaN, NaN] ''r-'' ''Curve 1'']
   \<and> max_y_axis plotted_nan = Fin 0 \<and> min_y_axis plotted_nan = NaN"
  by (simp add: plotted_nan_def run_defs digits.simps)

text \<open>
  On the accumulator with one curve, whose y values are 1 and 2: the limits
  become 1 and 2.2 by default, 1 and 3 with \<open>max_y = 3\<close>.
\<close>

theorem show_plot_upper_y_limit_witness:
  "ylim_calls (case axes (snd (show_plot default_args plotted)) of None \<Rightarrow> [] | Some cs \<Rightarrow> cs)
     = [(Fin 0, Fin 1), (Fin 1, Fin (22 / 10))]
   \<and> ylim_calls (case axes (snd (show_plot (default_args\<lparr>max_y := Some (Fin 3)\<rparr>) plotted)) of
                   None \<Rightarrow> [] | Some cs \<Rightarrow> cs)
     = [(Fin 0, Fin 1), (Fin 1, Fin 3)]"
  using show_plot_upper_y_limit [where self = plotted and a = default_args]
    show_plot_upper_y_limit [where self = plotted and a = "default_args\<lparr>max_y := Some (Fin 3)\<rparr>"]
  by (simp add: plotted_eq default_args_def)

text \<open>
  C8 as stated fails. On a new accumulator \<open>show_plot\<close> raises
  \<open>AttributeError\<close> and no limit is set: there are no axes. After a curve whose
  values are all NaN the accumulated lower y bound is NaN, \<open>show_plot\<close> raises
  \<open>ValueError\<close>, and the only y limit on the axes is the initial one.
\<close>

theorem show_plot_upper_y_limit_counterexample:
  "axes linear_curve = None
   \<and> fst (show_plot default_args linear_curve) = Raised AttributeError
   \<and> axes (snd (show_plot default_args linear_curve)) = None
   \<and> fst (add_curve sweep_nan (Some ''pl'') None ([], linear_curve)) = Returned ()
   \<and> fst (show_plot default_args plotted_nan) = Raised ValueError
   \<and> ylim_calls (case axes (snd (show_plot default_args plotted_nan)) of
                   None \<Rightarrow> [] | Some cs \<Rightarrow> cs)
     = [(Fin 0, Fin 1)]"
proof -
  have "axes linear_curve = None" by (simp add: linear_curve_def class_defaults_def)
  moreover have "fst (show_plot default_args linear_curve) = Raised AttributeError
      \<and> axes (snd (show_plot default_args linear_curve)) = None"
    by (simp add: show_plot_def set_limits_def default_args_def linear_curve_def class_defaults_def)
  moreover have "fst (add_curve sweep_nan (Some ''pl'') None ([], linear_curve)) = Returned ()"
    by (simp add: run_defs)
  moreover have "fst (show_plot default_args plotted_nan) = Raised ValueError
      \<and> ylim_calls (case axes (snd (show_plot default_args plotted_nan)) of
                   None \<Rightarrow> [] | Some cs \<Rightarrow> cs) = [(Fin 0, Fin 1)]"
    by (simp add: show_plot_def set_limits_def set_ylim_def default_args_def plotted_nan_eq)
  ultimately show ?thesis by blast
qed

section \<open>Properties of the residual function\<close>

lemma map_of_setitem: "map_of (setitem d k v) = (map_of d)(k \<mapsto> v)"
  by (induction d k v rule: setitem.induct) auto

lemma map_of_overlay:
  "map_of (overlay d params) = map_of d ++ map_of (rev (map (\<lambda>(k, p). (k, Param p)) params))"
proof (induction params arbitrary: d)
  case Nil
  then show ?case by (simp add: overlay_def)
next
  case (Cons a params)
  obtain k p where a: "a = (k, p)" by (cases a)
  have "overlay d (a # params) = overlay (setitem d k (Param p)) params"
    by (simp add: overlay_def a)
  then show ?case
    using Cons [of "setitem d k (Param p)"]
    by (simp add: a map_of_setitem map_add_def fun_eq_iff split: option.splits)
qed

lemma residual_world:
  "snd (residual self params r to_fit y readout w)
     = w\<lparr>dict_at := (dict_at w)(r := overlay (dict_at w r) params)\<rparr>"
  by (simp add: residual_def Let_def split: option.splits sum.splits)

text \<open>
  C9, as the code has it. With a system configured, the residual function
  binds the trial parameters in the dictionary it is handed, in place: after
  the call that dictionary maps every trial name to its parameter object and
  every other name as before, and nothing else in the store has changed. The
  system is queried with this dictionary, and with the readout exactly when
  it is not analytical; an exception of the system leaves the call; otherwise
  the value is predicted minus observed, element by element when the lengths
  agree. The value depends on the trial parameters, the content of the
  dictionary, the observed values and the readout only: not on where the
  dictionary lives, on the rest of the store, or on \<open>to_fit\<close>.
\<close>

theorem residual_in_place:
  assumes "system self = Some sys"
  shows "snd (residual self params r to_fit y readout w)
           = w\<lparr>dict_at := (dict_at w)(r := overlay (dict_at w r) params)\<rparr>
       \<and> map_of (overlay (dict_at w r) params)
           = map_of (dict_at w r) ++ map_of (rev (map (\<lambda>(k, p). (k, Param p)) params))
       \<and> fst (residual self params r to_fit y readout w)
           = (case (if analytical sys
                    then system_query sys (Args1 (overlay (dict_at w r) params))
                    else system_query sys (Args2 (overlay (dict_at w r) params) readout)) of
                Inl e \<Rightarrow> Inl e
              | Inr predicted \<Rightarrow>
                  (if length predicted = length y then Inr (map2 fsub predicted y)
                   else array_sub predicted y))
       \<and> (dict_at w2 r2 = dict_at w r \<longrightarrow>
            fst (residual self params r2 to_fit2 y readout w2)
              = fst (residual self params r to_fit y readout w))"
proof -
  have "fst (residual self params r to_fit y readout w)
           = (case (if analytical sys
                    then system_query sys (Args1 (overlay (dict_at w r) params))
                    else system_query sys (Args2 (overlay (dict_at w r) params) readout)) of
                Inl e \<Rightarrow> Inl e
              | Inr predicted \<Rightarrow>
                  (if length predicted = length y then Inr (map2 fsub predicted y)
                   else array_sub predicted y))"
    using assms by (simp add: residual_def Let_def array_sub_def split: sum.splits)
  moreover have "dict_at w2 r2 = dict_at w r \<Longrightarrow>
      fst (residual self params r2 to_fit2 y readout w2)
        = fst (residual self params r to_fit y readout w)"
    by (simp add: residual_def Let_def split: option.splits sum.splits)
  ultimately show ?thesis
    by (simp add: residual_world map_of_overlay)
qed

text \<open>
  A call with \<open>k = 2\<close> on the dictionary at reference 0, against the observed
  values 2 and 5: the value is 0 and -1, \<open>k\<close> is now bound to the parameter
  object, and the same dictionary at another reference of another store gives
  the same value.
\<close>

theorem residual_in_place_witness:
  "residual linear_curve trial_k2 0 [] [Fin 2, Fin 5] None base_world
     = (Inr [Fin 0, Fin (- 1)],
        base_world\<lparr>dict_at := (dict_at base_world)
           (0 := [(''p'', NdArray [Fin 1, Fin 2]),
                  (''k'', Param \<lparr>par_value = Fin 2, par_min = NegInf, par_max = PosInf,
                                  par_stderr = None\<rparr>)])\<rparr>)
   \<and> fst (residual linear_curve trial_k2 5 [(''k'', Fin 9)] [Fin 2, Fin 5] None aliased_world)
     = Inr [Fin 0, Fin (- 1)]"
proof -
  have a: "system linear_curve = Some linear_system" by (simp add: linear_curve_def)
  have b: "dict_at aliased_world 5 = dict_at base_world 0"
    by (simp add: aliased_world_def base_world_def)
  from residual_in_place [OF a, of trial_k2 0 "[]" "[Fin 2, Fin 5]" None base_world
      aliased_world 5 "[(''k'', Fin 9)]"] b
  show ?thesis
    by (simp add: prod_eq_iff base_world_def overlay_def linear_system_def scaled_sweep_def
          trial_k2_def)
qed

text \<open>
  C9 as stated fails: the dictionary handed to the residual function is not
  the same after the call. It binds \<open>k\<close> to the scalar 1 before and to the
  trial's parameter object after. A later call with the same arguments (no
  trial parameters, the same dictionary object, the same observed values) then
  has another value than it has on the dictionary as it was: -1 and -3 with
  \<open>k = 1\<close> before, 0 and -1 with the retained \<open>k = 2\<close> after.
\<close>

theorem residual_in_place_counterexample:
  "dict_at base_world 0 = [(''p'', NdArray [Fin 1, Fin 2]), (''k'', Scalar (Fin 1))]
   \<and> dict_at (snd (residual linear_curve trial_k2 0 [] [Fin 2, Fin 5] None base_world)) 0
     = [(''p'', NdArray [Fin 1, Fin 2]),
        (''k'', Param \<lparr>par_value = Fin 2, par_min = NegInf, par_max = PosInf, par_stderr = None\<rparr>)]
   \<and> fst (residual linear_curve [] 0 [] [Fin 2, Fin 5] None base_world)
     = Inr [Fin (- 1), Fin (- 3)]
   \<and> fst (residual linear_curve [] 0 [] [Fin 2, Fin 5] None
           (snd (residual linear_curve trial_k2 0 [] [Fin 2, Fin 5] None base_world)))
     = Inr [Fin 0, Fin (- 1)]"
  by (simp add: residual_def base_world_def overlay_def Let_def linear_curve_def
        linear_system_def scaled_sweep_def array_sub_def trial_k2_def)

section \<open>Properties of \<open>fit\<close>\<close>

text \<open>
  C4. With an empty \<open>to_fit\<close>, whatever the other arguments, the minimizer and
  its fuel, \<open>fit\<close> reports \<open>NothingToFit\<close>, and the minimizer has not been run.
\<close>

theorem fit_nothing_to_fit:
  "fst (fit fuel lm self system_parameters [] y x_parameter y_parameter bounds w)
     = Some (Reported NothingToFit)
   \<and> minimizer_runs (snd (fit fuel lm self system_parameters [] y x_parameter y_parameter bounds w))
     = minimizer_runs w"
  by (simp add: fit_def new_dict_def)

text \<open>
  C5, as the code has it. The check for an empty \<open>to_fit\<close> comes first, so the
  claim needs \<open>to_fit\<close> not to be empty. Then, when the keys of
  \<open>system_parameters\<close> and \<open>to_fit\<close> do not cover the arguments of the
  configured system, \<open>fit\<close> reports \<open>MissingParameters\<close> with exactly the
  omitted names, each once, in ascending order, and the minimizer has not been
  run.
\<close>

theorem fit_missing_parameters:
  assumes "to_fit \<noteq> []" and "system self = Some sys"
    and "\<not> set (arguments sys) \<subseteq> set (map fst (dict_at w system_parameters)) \<union> set (map fst to_fit)"
  shows "\<exists>missing.
           fst (fit fuel lm self system_parameters to_fit y x_parameter y_parameter bounds w)
             = Some (Reported (MissingParameters missing))
         \<and> set missing = set (arguments sys)
               - (set (map fst (dict_at w system_parameters)) \<union> set (map fst to_fit))
         \<and> sorted missing \<and> distinct missing
         \<and> minimizer_runs (snd (fit fuel lm self system_parameters to_fit y x_parameter y_parameter bounds w))
             = minimizer_runs w"
proof -
  let ?keys = "map fst (dict_at w system_parameters) @ map fst to_fit"
  let ?missing = "sort (remdups (filter (\<lambda>a. a \<notin> set ?keys) (arguments sys)))"
  have ne: "?missing \<noteq> []"
  proof
    assume "?missing = []"
    then have "set ?missing = {}" by simp
    then have "set (arguments sys) \<subseteq> set ?keys" by auto
    with assms(3) show False by simp
  qed
  have "fit fuel lm self system_parameters to_fit y x_parameter y_parameter bounds w
        = (Some (Reported (MissingParameters ?missing)), snd (new_dict (dict_at w system_parameters) w))"
    using assms(1,2) ne by (simp add: fit_def new_dict_def Let_def)
  moreover have "set ?missing = set (arguments sys)
               - (set (map fst (dict_at w system_parameters)) \<union> set (map fst to_fit))"
    by auto
  moreover have "sorted ?missing" "distinct ?missing" by simp_all
  ultimately show ?thesis by (simp add: new_dict_def)
qed

text \<open>
  The linear system needs \<open>p\<close> and \<open>k\<close>; with no base parameters and only \<open>k\<close>
  to fit, \<open>p\<close> is reported.
\<close>

theorem fit_missing_parameters_witness:
  "\<exists>missing.
     fst (fit 0 idle_minimizer linear_curve 0 [(''k'', Fin 1)] [] ''P'' ''PL'' None empty_world)
       = Some (Reported (MissingParameters missing))
     \<and> set missing = {''p''}"
proof -
  have a: "[(''k'', Fin 1)] \<noteq> []" by simp
  have b: "system linear_curve = Some linear_system" by (simp add: linear_curve_def)
  have c: "\<not> set (arguments linear_system)
             \<subseteq> set (map fst (dict_at empty_world 0)) \<union> set (map fst [(''k'', Fin 1)])"
    by (simp add: linear_system_def empty_world_def)
  from fit_missing_parameters [OF a b c, of 0 idle_minimizer "[]" "''P''" "''PL''" None]
  show ?thesis by (auto simp add: linear_system_def empty_world_def)
qed

text \<open>
  C5 as stated fails: with nothing to fit and \<open>p\<close> omitted, \<open>fit\<close> reports
  \<open>NothingToFit\<close>, not the missing names.
\<close>

theorem fit_missing_parameters_counterexample:
  "''p'' \<in> set (arguments linear_system)
   \<and> ''p'' \<notin> set (map fst (dict_at empty_world 0)) \<union> set (map fst ([] :: (string \<times> pyfloat) list))
   \<and> system linear_curve = Some linear_system
   \<and> fst (fit 0 idle_minimizer linear_curve 0 [] [] ''P'' ''PL'' None empty_world)
       = Some (Reported NothingToFit)"
  by (simp add: fit_def new_dict_def linear_system_def empty_world_def linear_curve_def)

text \<open>
  A run of the minimizer that finishes: its result parameters are what the
  strategy finished with, after some further trials, and the store differs
  only in the dictionary the residual function was writing to, which holds
  those trials bound one after the other.
\<close>

lemma minimize_run:
  "minimize fuel lm (\<lambda>trial. residual self trial c to_fit y readout) ps history w
     = (Some (Inr result), w')
   \<Longrightarrow> \<exists>more. lm ps (history @ more) = Finish result
        \<and> w' = w\<lparr>dict_at := (dict_at w)(c := foldl overlay (dict_at w c) (map fst more))\<rparr>"
proof (induction fuel arbitrary: history w)
  case 0
  then show ?case by simp
next
  case (Suc fuel)
  show ?case
  proof (cases "lm ps history")
    case (Finish res)
    with Suc.prems have "res = result" "w' = w" by simp_all
    with Finish have "lm ps (history @ []) = Finish result
        \<and> w' = w\<lparr>dict_at := (dict_at w)(c := foldl overlay (dict_at w c) (map fst []))\<rparr>"
      by simp
    then show ?thesis by blast
  next
    case (Abort e)
    with Suc.prems show ?thesis by simp
  next
    case (Evaluate trial)
    let ?w1 = "w\<lparr>dict_at := (dict_at w)(c := overlay (dict_at w c) trial)\<rparr>"
    obtain out w1 where r: "residual self trial c to_fit y readout w = (out, w1)"
      by (cases "residual self trial c to_fit y readout w")
    then have w1: "w1 = ?w1" using residual_world [of self trial c to_fit y readout w] by simp
    show ?thesis
    proof (cases out)
      case (Inl e)
      with Suc.prems Evaluate r show ?thesis by simp
    next
      case (Inr res)
      with Suc.prems Evaluate r
      have "minimize fuel lm (\<lambda>trial. residual self trial c to_fit y readout) ps
              (history @ [(trial, res)]) w1 = (Some (Inr result), w')"
        by simp
      from Suc.IH [OF this] obtain more where
        m: "lm ps ((history @ [(trial, res)]) @ more) = Finish result"
        and w': "w' = w1\<lparr>dict_at := (dict_at w1)
                   (c := foldl overlay (dict_at w1 c) (map fst more))\<rparr>"
        by blast
      have "lm ps (history @ ((trial, res) # more)) = Finish result
        \<and> w' = w\<lparr>dict_at := (dict_at w)
                   (c := foldl overlay (dict_at w c) (map fst ((trial, res) # more)))\<rparr>"
        using m w' w1 by simp
      then show ?thesis by blast
    qed
  qed
qed

text \<open>
  C6. When \<open>fit\<close> returns its pair, the caller's dictionary is as it was. The
  dictionary returned is a new object. It holds the caller's entries with the
  trial parameters of the minimizer's run bound over them, one trial after the
  other, each parameter object replaced by its value; and the second component
  maps each result parameter of the minimizer to its standard error.
\<close>

theorem fit_keeps_system_parameters:
  assumes "fit fuel lm self system_parameters to_fit y x_parameter y_parameter bounds w
             = (Some (Returned (r, errors)), w')"
    and "system_parameters < next_ref w"
  shows "dict_at w' system_parameters = dict_at w system_parameters
       \<and> r = next_ref w \<and> r \<noteq> system_parameters
       \<and> (\<exists>history result.
             lm (lmfit_parameters to_fit (case bounds of None \<Rightarrow> [] | Some b \<Rightarrow> b)) history
               = Finish result
           \<and> dict_at w' r
               = unwrap_parameters (foldl overlay (dict_at w system_parameters) (map fst history))
           \<and> errors = map (\<lambda>(p, par). (p, par_stderr par)) result)"
proof -
  let ?c = "next_ref w"
  let ?w0 = "w\<lparr>dict_at := (dict_at w)(?c := dict_at w system_parameters), next_ref := ?c + 1\<rparr>"
  let ?w1 = "?w0\<lparr>minimizer_runs := minimizer_runs ?w0 + 1\<rparr>"
  let ?ps = "lmfit_parameters to_fit (case bounds of None \<Rightarrow> [] | Some b \<Rightarrow> b)"
  let ?run = "minimize fuel lm
                (\<lambda>trial. residual self trial ?c to_fit y (Some (lower y_parameter))) ?ps [] ?w1"
  obtain res w2 where run: "?run = (res, w2)" by (cases ?run)
  from assms(1) run obtain result where
    res: "res = Some (Inr result)"
    and r: "r = ?c"
    and errs: "errors = map (\<lambda>(p, par). (p, par_stderr par)) result"
    and w': "w' = w2\<lparr>dict_at := (dict_at w2)(?c := unwrap_parameters (dict_at w2 ?c))\<rparr>"
    by (auto simp add: fit_def new_dict_def Let_def
          split: if_splits option.splits sum.splits prod.splits)
  from minimize_run [OF run [unfolded res]] obtain more where
    fin: "lm ?ps ([] @ more) = Finish result"
    and w2: "w2 = ?w1\<lparr>dict_at := (dict_at ?w1)
                (?c := foldl overlay (dict_at ?w1 ?c) (map fst more))\<rparr>"
    by blast
  have ne: "system_parameters \<noteq> ?c" using assms(2) by simp
  have "dict_at w' system_parameters = dict_at w system_parameters"
    using ne by (simp add: w' w2)
  moreover have "dict_at w' r
               = unwrap_parameters (foldl overlay (dict_at w system_parameters) (map fst more))"
    by (simp add: w' w2 r)
  ultimately show ?thesis using fin errs r ne by auto
qed

lemmas fit_run_defs = fit_def new_dict_def Let_def base_world_def one_step_minimizer_def
  linear_curve_def linear_system_def class_defaults_def lmfit_parameters_def residual_def
  overlay_def scaled_sweep_def array_sub_def unwrap_parameters_def trial_k2_def

lemma fit_run:
  "fst (fit 2 one_step_minimizer linear_curve 0 [(''k'', Fin 1)] [Fin 2, Fin 4]
          ''P'' ''PL'' None base_world)
    = Some (Returned (1, [(''k'', Some (Fin 0))]))"
  by (simp add: fit_run_defs numeral_2_eq_2)

text \<open>
  Fitting \<open>k\<close> from the guess 1 against the observed values 2 and 4: the
  minimizer tries \<open>k = 2\<close> and finishes. The caller's dictionary at reference 0
  still binds \<open>k\<close> to 1; the dictionary returned, at reference 1, binds it to 2.
\<close>

theorem fit_keeps_system_parameters_witness:
  "fst (fit 2 one_step_minimizer linear_curve 0 [(''k'', Fin 1)] [Fin 2, Fin 4]
          ''P'' ''PL'' None base_world)
     = Some (Returned (1, [(''k'', Some (Fin 0))]))
   \<and> dict_at (snd (fit 2 one_step_minimizer linear_curve 0 [(''k'', Fin 1)] [Fin 2, Fin 4]
                      ''P'' ''PL'' None base_world)) 0
     = [(''p'', NdArray [Fin 1, Fin 2]), (''k'', Scalar (Fin 1))]
   \<and> dict_at (snd (fit 2 one_step_minimizer linear_curve 0 [(''k'', Fin 1)] [Fin 2, Fin 4]
                      ''P'' ''PL'' None base_world)) 1
     = [(''p'', NdArray [Fin 1, Fin 2]), (''k'', Scalar (Fin 2))]"
proof -
  let ?run = "fit 2 one_step_minimizer linear_curve 0 [(''k'', Fin 1)] [Fin 2, Fin 4]
                ''P'' ''PL'' None base_world"
  have a: "?run = (Some (Returned (1, [(''k'', Some (Fin 0))])), snd ?run)"
    using fit_run by (metis prod.collapse)
  have b: "0 < next_ref base_world" by (simp add: base_world_def)
  have c: "dict_at (snd ?run) 1 = [(''p'', NdArray [Fin 1, Fin 2]), (''k'', Scalar (Fin 2))]"
    by (simp add: fit_run_defs numeral_2_eq_2)
  from fit_keeps_system_parameters [OF a b] fit_run c
  show ?thesis by (simp add: base_world_def)
qed

text \<open>
  C10. Two calls of \<open>fit\<close> that differ in \<open>x_parameter\<close> only have the same
  result and leave the same store: the argument is never read.
\<close>

theorem fit_ignores_x_parameter:
  "fit fuel lm self system_parameters to_fit y x1 y_parameter bounds w
   = fit fuel lm self system_parameters to_fit y x2 y_parameter bounds w"
  by (simp add: fit_def)

end
